theory Spec2Isabelle
  imports Main
begin

section \<open>Values supplied by the environment\<close>

text \<open>
  A UUID is represented by its canonical text, the value of Python's \<open>str(uuid)\<close>: the
  services compare identifiers as such strings (\<open>str(item.id)\<close>, \<open>str(user_id)\<close>) and
  build cache keys from them. The fresh identifier \<open>uuid4()\<close> and the clock reading
  \<open>datetime.utcnow()\<close> are inputs of every operation that uses them; one call stamps all
  its writes with the reading it is given.
\<close>

type_synonym uuid = string
type_synonym timestamp = nat

section \<open>Exceptions (utils/exceptions.py)\<close>

text \<open>
  \<open>ValidationError\<close> carries its error code and its dictionary of messages; the other API
  exceptions carry their code. \<open>SchemaError\<close> is marshmallow's own \<open>ValidationError\<close>,
  raised by \<open>Schema.load\<close>; \<open>KeyError\<close> is Python's, raised by a subscript on a
  dictionary that lacks the key.
\<close>

datatype error =
    ValidationError string "(string \<times> string list) list"
  | ResourceNotFoundError string
  | AuthorizationError string
  | DatabaseError
  | SchemaError
  | KeyError string

section \<open>Models (models/base.py, models/bullet_item.py, models/project.py, models/specification.py)\<close>

text \<open>
  The columns of \<open>Base\<close>; the column \<open>id\<close> is named \<open>row_id\<close> here, \<open>id\<close> being HOL's
  identity function. It is the primary key.
\<close>

record base =
  row_id :: uuid
  created_at :: timestamp
  updated_at :: timestamp
  is_deleted :: bool

record bullet_item = base +
  spec_id :: uuid
  content :: string
  order :: int

record project = base +
  title :: string
  user_id :: uuid

text \<open>
  The model \<open>Specification\<close> (\<open>specification\<close> is a keyword of Isabelle); its column
  \<open>content\<close> is named \<open>spec_content\<close>.
\<close>

record specification_row = base +
  project_id :: uuid
  spec_content :: string

text \<open>\<open>Base.soft_delete\<close>: the flag is set and \<open>updated_at\<close> restamped; the row stays.\<close>

definition soft_delete :: "timestamp \<Rightarrow> 'a base_scheme \<Rightarrow> 'a base_scheme" where
  "soft_delete now r = r\<lparr>is_deleted := True, updated_at := now\<rparr>"

text \<open>
  Python's \<open>str.strip()\<close> removes leading and trailing whitespace. The characters of a
  \<open>string\<close> here are the code points below 256, of which Python counts these as
  whitespace: 9 to 13, 28 to 32, 133 and 160.
\<close>

definition isspace :: "char \<Rightarrow> bool" where
  "isspace c = (let n = (of_char c :: nat) in
     (9 \<le> n \<and> n \<le> 13) \<or> (28 \<le> n \<and> n \<le> 32) \<or> n = 133 \<or> n = 160)"

definition strip :: "string \<Rightarrow> string" where
  "strip s = rev (dropWhile isspace (rev (dropWhile isspace s)))"

text \<open>\<open>BulletItem.validate_order\<close>.\<close>

definition validate_order :: "int \<Rightarrow> bool" where
  "validate_order n = (0 \<le> n \<and> n \<le> 9)"

text \<open>
  The constructor \<open>BulletItem(spec_id, content, order)\<close>, with the defaults of
  \<open>Base.__init__\<close>; \<open>None\<close> is its \<open>ValueError\<close>.
\<close>

definition BulletItem :: "uuid \<Rightarrow> timestamp \<Rightarrow> uuid \<Rightarrow> string \<Rightarrow> int \<Rightarrow> bullet_item option" where
  "BulletItem new_id now sid c n =
     (if c = [] \<or> strip c = [] then None
      else if \<not> validate_order n then None
      else Some \<lparr>row_id = new_id, created_at = now, updated_at = now, is_deleted = False,
                 spec_id = sid, content = strip c, order = n\<rparr>)"

text \<open>\<open>Project.validate_ownership\<close>.\<close>

definition validate_ownership :: "project \<Rightarrow> uuid \<Rightarrow> bool" where
  "validate_ownership p uid = (user_id p = uid)"

section \<open>Record store (database/operations.py)\<close>

text \<open>
  A table is the list of its rows. Every function is one transaction on it. The tables are
  those the models declare (\<open>init_db\<close> creates them from the models' metadata): the only
  constraint on a row is its primary key.
\<close>

text \<open>
  \<open>create_record\<close>: the constructor's exception and the violation of the primary key are
  both caught and raised again as \<open>DatabaseError\<close>.
\<close>

definition create_record ::
    "'a base_scheme option \<Rightarrow> 'a base_scheme list \<Rightarrow> error + ('a base_scheme \<times> 'a base_scheme list)" where
  "create_record inst rows =
     (case inst of
        None \<Rightarrow> Inl DatabaseError
      | Some r \<Rightarrow>
          if row_id r \<in> set (map row_id rows) then Inl DatabaseError
          else Inr (r, rows @ [r]))"

text \<open>\<open>get_record\<close>: the first row with the id that is not soft-deleted.\<close>

definition get_record :: "'a base_scheme list \<Rightarrow> uuid \<Rightarrow> 'a base_scheme option" where
  "get_record rows record_id = find (\<lambda>r. row_id r = record_id \<and> \<not> is_deleted r) rows"

text \<open>
  \<open>update_record\<close>: the attributes of \<open>data\<close> (a dictionary, here the assignments it
  stands for) are set on the row of the record's primary key. The UPDATE statement is
  issued for a net change only, and with it the column \<open>updated_at\<close> takes its
  \<open>onupdate\<close> value.
\<close>

definition update_record ::
    "timestamp \<Rightarrow> 'a base_scheme \<Rightarrow> ('a base_scheme \<Rightarrow> 'a base_scheme) \<Rightarrow> 'a base_scheme list \<Rightarrow> 'a base_scheme list" where
  "update_record now record data rows =
     map (\<lambda>r. if row_id r = row_id record
              then (if data r = r then r else (data r)\<lparr>updated_at := now\<rparr>)
              else r) rows"

text \<open>\<open>delete_record\<close>: the soft delete of the row of the record's primary key.\<close>

definition delete_record :: "timestamp \<Rightarrow> 'a base_scheme \<Rightarrow> 'a base_scheme list \<Rightarrow> 'a base_scheme list" where
  "delete_record now record rows =
     map (\<lambda>r. if row_id r = row_id record then soft_delete now r else r) rows"

text \<open>
  \<open>list_records\<close>: the rows that are not soft-deleted and satisfy the equality filters,
  in the order of the table.
\<close>

definition list_records :: "'a base_scheme list \<Rightarrow> ('a base_scheme \<Rightarrow> bool) \<Rightarrow> 'a base_scheme list" where
  "list_records rows filters = filter (\<lambda>r. \<not> is_deleted r \<and> filters r) rows"

section \<open>Validators and schemas (utils/validators.py, schemas/)\<close>

definition MAX_BULLET_ITEMS :: int where
  "MAX_BULLET_ITEMS = 10"

definition MAX_CONTENT_LENGTH :: nat where
  "MAX_CONTENT_LENGTH = 5000"

definition validate_bullet_item :: "string \<Rightarrow> int \<Rightarrow> error + bool" where
  "validate_bullet_item c n =
     (if c = [] then
        Inl (ValidationError ''ITEM002'' [(''content'', [''Content is required''])])
      else if length (strip c) = 0 then
        Inl (ValidationError ''ITEM002'' [(''content'', [''Content cannot be empty''])])
      else if length (strip c) > MAX_CONTENT_LENGTH then
        Inl (ValidationError ''ITEM002''
               [(''content'', [''Content exceeds maximum length of 5000 characters''])])
      else if n < 0 \<or> n \<ge> MAX_BULLET_ITEMS then
        Inl (ValidationError ''ITEM002'' [(''order'', [''Order must be between 0 and 9''])])
      else Inr True)"

definition validate_bullet_items_count :: "int \<Rightarrow> error + bool" where
  "validate_bullet_items_count current_count =
     (if current_count \<ge> MAX_BULLET_ITEMS then
        Inl (ValidationError ''ITEM001''
               [(''count'', [''Cannot exceed maximum of 10 bullet items''])])
      else Inr True)"

text \<open>
  The dictionary given to \<open>create_bullet_item\<close>, as \<open>BulletItemCreateSchema\<close> reads it: a
  field is \<open>None\<close> when the key is missing or its value is not of the field's type.
\<close>

record bullet_item_data =
  in_content :: "string option"
  in_order :: "int option"
  in_spec_id :: "uuid option"

text \<open>
  \<open>BulletItemCreateSchema.load\<close>. The validator of \<open>content\<close> calls
  \<open>validate_bullet_item(content, 0)\<close> and catches marshmallow's \<open>ValidationError\<close> only, so
  the application's \<open>ValidationError\<close> that the call raises leaves \<open>load\<close> as it is. A
  missing field and an order outside 0..9 are marshmallow's errors. The result is the
  validated \<open>(content, order, spec_id)\<close>.
\<close>

definition create_schema_load :: "bullet_item_data \<Rightarrow> error + (string \<times> int \<times> uuid)" where
  "create_schema_load d =
     (case (case in_content d of
              None \<Rightarrow> Inr True
            | Some c \<Rightarrow> validate_bullet_item c 0) of
        Inl e \<Rightarrow> Inl e
      | Inr _ \<Rightarrow>
          (case (in_content d, in_order d, in_spec_id d) of
             (Some c, Some n, Some sid) \<Rightarrow>
               if n < 0 \<or> n > 9 then Inl SchemaError else Inr (c, n, sid)
           | _ \<Rightarrow> Inl SchemaError))"

text \<open>What \<open>BulletItemSchema.dump\<close> and \<open>ProjectSchema.dump\<close> write.\<close>

record bullet_item_dict =
  bi_id :: uuid
  bi_spec_id :: uuid
  bi_content :: string
  bi_order :: int
  bi_created_at :: timestamp
  bi_updated_at :: timestamp

definition bullet_item_schema_dump :: "bullet_item \<Rightarrow> bullet_item_dict" where
  "bullet_item_schema_dump r =
     \<lparr>bi_id = row_id r, bi_spec_id = spec_id r, bi_content = content r, bi_order = order r,
      bi_created_at = created_at r, bi_updated_at = updated_at r\<rparr>"

record project_dict =
  pd_id :: uuid
  pd_title :: string
  pd_user_id :: uuid
  pd_created_at :: timestamp
  pd_updated_at :: timestamp
  pd_is_deleted :: bool

definition project_schema_dump :: "project \<Rightarrow> project_dict" where
  "project_schema_dump p =
     \<lparr>pd_id = row_id p, pd_title = title p, pd_user_id = user_id p,
      pd_created_at = created_at p, pd_updated_at = updated_at p,
      pd_is_deleted = is_deleted p\<rparr>"

text \<open>
  \<open>SpecificationSchema.dump\<close>: its field \<open>spec_id\<close> names no attribute of the model and is
  left out; its nested field reads the relationship \<open>bullet_items\<close>, the rows of the
  specification ordered by \<open>order\<close>.
\<close>

record specification_dict =
  sd_project_id :: uuid
  sd_content :: string
  sd_bullet_items :: "bullet_item_dict list"
  sd_created_at :: timestamp
  sd_updated_at :: timestamp

definition specification_schema_dump :: "bullet_item list \<Rightarrow> specification_row \<Rightarrow> specification_dict" where
  "specification_schema_dump items s =
     \<lparr>sd_project_id = project_id s, sd_content = spec_content s,
      sd_bullet_items =
        map bullet_item_schema_dump (sort_key order (filter (\<lambda>b. spec_id b = row_id s) items)),
      sd_created_at = created_at s, sd_updated_at = updated_at s\<rparr>"

section \<open>Cache (cache/keys.py, cache/redis.py, services/cache_service.py)\<close>

text \<open>
  The JSON values the services store: \<open>None\<close>, the dump of a project, the dump of a
  specification, and the dictionary \<open>{'specifications': [...]}\<close> that
  \<open>list_project_specifications\<close> stores under the project's key.
\<close>

datatype payload =
    PyNone
  | ProjectDict project_dict
  | SpecificationDict specification_dict
  | SpecificationsDict "specification_dict list"

text \<open>
  The Redis backend: whether its commands succeed, and the values by key. The expiry of an
  entry after its TTL is a step of the environment, not of an operation.
\<close>

record redis_cache =
  reachable :: bool
  entries :: "(string \<times> payload) list"

definition KEY_SEPARATOR :: string where
  "KEY_SEPARATOR = '':''"

definition PROJECT_PREFIX :: string where
  "PROJECT_PREFIX = ''project''"

definition SPEC_PREFIX :: string where
  "SPEC_PREFIX = ''spec''"

fun join :: "string \<Rightarrow> string list \<Rightarrow> string" where
  "join sep [] = []"
| "join sep [x] = x"
| "join sep (x # y # ys) = x @ sep @ join sep (y # ys)"

definition make_key :: "string \<Rightarrow> string list \<Rightarrow> string" where
  "make_key prefix components = join KEY_SEPARATOR (prefix # components)"

definition make_project_key :: "uuid \<Rightarrow> string" where
  "make_project_key pid = make_key PROJECT_PREFIX [pid]"

definition make_spec_key :: "uuid \<Rightarrow> string" where
  "make_spec_key sid = make_key SPEC_PREFIX [sid]"

text \<open>
  \<open>RedisCache.get\<close>, \<open>set\<close> and \<open>clear\<close>: every exception of the client is raised again
  as \<open>DatabaseError\<close>. A missing key reads as \<open>None\<close>, as the stored \<open>null\<close> does.
\<close>

definition redis_get :: "redis_cache \<Rightarrow> string \<Rightarrow> error + payload" where
  "redis_get c key =
     (if \<not> reachable c then Inl DatabaseError
      else Inr (case map_of (entries c) key of None \<Rightarrow> PyNone | Some v \<Rightarrow> v))"

definition redis_set :: "redis_cache \<Rightarrow> string \<Rightarrow> payload \<Rightarrow> error + redis_cache" where
  "redis_set c key v =
     (if \<not> reachable c then Inl DatabaseError
      else Inr (c\<lparr>entries := (key, v) # filter (\<lambda>e. fst e \<noteq> key) (entries c)\<rparr>))"

definition redis_clear :: "redis_cache \<Rightarrow> error + redis_cache" where
  "redis_clear c = (if \<not> reachable c then Inl DatabaseError else Inr (c\<lparr>entries := []\<rparr>))"

text \<open>\<open>CacheService\<close>: the methods the project and specification services call.\<close>

definition cache_get_project :: "redis_cache \<Rightarrow> uuid \<Rightarrow> error + payload" where
  "cache_get_project c pid = redis_get c (make_project_key pid)"

definition cache_set_project :: "redis_cache \<Rightarrow> uuid \<Rightarrow> payload \<Rightarrow> error + redis_cache" where
  "cache_set_project c pid v = redis_set c (make_project_key pid) v"

definition cache_get_specification :: "redis_cache \<Rightarrow> uuid \<Rightarrow> error + payload" where
  "cache_get_specification c sid = redis_get c (make_spec_key sid)"

definition cache_set_specification :: "redis_cache \<Rightarrow> uuid \<Rightarrow> payload \<Rightarrow> error + redis_cache" where
  "cache_set_specification c sid v = redis_set c (make_spec_key sid) v"

definition clear_cache :: "redis_cache \<Rightarrow> error + redis_cache" where
  "clear_cache c = (case redis_clear c of Inl e \<Rightarrow> Inl DatabaseError | Inr c' \<Rightarrow> Inr c')"

section \<open>The state the services work on\<close>

record state =
  projects :: "project list"
  specifications :: "specification_row list"
  bullet_items :: "bullet_item list"
  redis :: redis_cache

section \<open>BulletItemService (services/bullet_item_service.py)\<close>

text \<open>
  Every method returns what the Python method returns or raises, and the state it leaves.
\<close>

definition create_bullet_item ::
    "uuid \<Rightarrow> timestamp \<Rightarrow> bullet_item_data \<Rightarrow> state \<Rightarrow> (error + bullet_item_dict) \<times> state" where
  "create_bullet_item new_id now data st =
     (case create_schema_load data of
        Inl e \<Rightarrow> (Inl e, st)
      | Inr (c, n, sid) \<Rightarrow>
          let existing_items = list_records (bullet_items st) (\<lambda>r. spec_id r = sid) in
          if length existing_items \<ge> 10 then
            (Inl (ValidationError ''ITEM001''
                    [(''items'', [''Maximum number of bullet items (10) reached''])]), st)
          else
            (case create_record (BulletItem new_id now sid c n) (bullet_items st) of
               Inl e \<Rightarrow> (Inl e, st)
             | Inr (bullet_item, rows) \<Rightarrow>
                 (Inr (bullet_item_schema_dump bullet_item), st\<lparr>bullet_items := rows\<rparr>)))"

definition get_bullet_item :: "uuid \<Rightarrow> state \<Rightarrow> (error + bullet_item_dict) \<times> state" where
  "get_bullet_item item_id st =
     (case get_record (bullet_items st) item_id of
        None \<Rightarrow> (Inl (ResourceNotFoundError ''ITEM001''), st)
      | Some bullet_item \<Rightarrow> (Inr (bullet_item_schema_dump bullet_item), st))"

definition delete_bullet_item :: "timestamp \<Rightarrow> uuid \<Rightarrow> state \<Rightarrow> (error + string) \<times> state" where
  "delete_bullet_item now item_id st =
     (case get_record (bullet_items st) item_id of
        None \<Rightarrow> (Inl (ResourceNotFoundError ''ITEM001''), st)
      | Some bullet_item \<Rightarrow>
          (Inr ''Bullet item deleted successfully'',
           st\<lparr>bullet_items := delete_record now bullet_item (bullet_items st)\<rparr>))"

text \<open>\<open>list.sort\<close> is stable, as \<open>sort_key\<close> is.\<close>

definition list_specification_items :: "uuid \<Rightarrow> state \<Rightarrow> bullet_item_dict list" where
  "list_specification_items sid st =
     map bullet_item_schema_dump
       (sort_key order (list_records (bullet_items st) (\<lambda>r. spec_id r = sid)))"

text \<open>
  An entry of the list given to \<open>reorder_items\<close>. \<open>update_id\<close> is \<open>str(update.get('id'))\<close>,
  or \<open>None\<close> when the key is missing or its value is one that Python's \<open>not\<close> takes
  for false; \<open>update_order\<close> is \<open>update.get('order')\<close>, or \<open>None\<close> when that is no
  instance of \<open>int\<close>.
\<close>

record order_update =
  update_id :: "string option"
  update_order :: "int option"

text \<open>
  The dictionary \<open>existing_map\<close>: of two items with one key the later stays.
\<close>

definition existing_map_of :: "bullet_item list \<Rightarrow> (string \<rightharpoonup> bullet_item)" where
  "existing_map_of existing_items = map_of (rev (map (\<lambda>item. (row_id item, item)) existing_items))"

text \<open>The first loop of \<open>reorder_items\<close>: the exception it raises, if any.\<close>

fun validate_updates :: "(string \<rightharpoonup> bullet_item) \<Rightarrow> order_update list \<Rightarrow> error option" where
  "validate_updates existing_map [] = None"
| "validate_updates existing_map (u # us) =
     (case update_id u of
        None \<Rightarrow> Some (ResourceNotFoundError ''ITEM001'')
      | Some item_id \<Rightarrow>
          if item_id = [] \<or> existing_map item_id = None then
            Some (ResourceNotFoundError ''ITEM001'')
          else
            (case update_order u of
               None \<Rightarrow>
                 Some (ValidationError ''ITEM002'' [(''order'', [''Order must be between 0 and 9''])])
             | Some new_order \<Rightarrow>
                 if new_order < 0 \<or> new_order > 9 then
                   Some (ValidationError ''ITEM002'' [(''order'', [''Order must be between 0 and 9''])])
                 else validate_updates existing_map us))"

text \<open>
  The second loop: every \<open>update_record\<close> is a transaction of its own. The result holds the
  keys of the objects appended to \<open>updated_items\<close>. A subscript that finds no key raises
  \<open>KeyError\<close> and leaves the table as the earlier entries wrote it.
\<close>

fun update_items ::
    "timestamp \<Rightarrow> (string \<rightharpoonup> bullet_item) \<Rightarrow> order_update list \<Rightarrow> bullet_item list
       \<Rightarrow> (error + string list) \<times> bullet_item list" where
  "update_items now existing_map [] rows = (Inr [], rows)"
| "update_items now existing_map (u # us) rows =
     (case update_id u of
        None \<Rightarrow> (Inl (KeyError ''id''), rows)
      | Some item_id \<Rightarrow>
          (case existing_map item_id of
             None \<Rightarrow> (Inl (KeyError item_id), rows)
           | Some item \<Rightarrow>
               (case update_order u of
                  None \<Rightarrow> (Inl (KeyError ''order''), rows)
                | Some new_order \<Rightarrow>
                    (case update_items now existing_map us
                            (update_record now item (\<lambda>r. r\<lparr>order := new_order\<rparr>) rows) of
                       (Inl e, rows') \<Rightarrow> (Inl e, rows')
                     | (Inr keys, rows') \<Rightarrow> (Inr (item_id # keys), rows')))))"

text \<open>
  \<open>updated_items\<close> holds the objects of \<open>existing_map\<close>, one object for every key, each
  refreshed from its row by its last \<open>update_record\<close>: when the list is dumped an object
  shows its row as the whole loop left it.
\<close>

definition updated_items :: "string list \<Rightarrow> bullet_item list \<Rightarrow> bullet_item list" where
  "updated_items keys rows = List.map_filter (\<lambda>k. find (\<lambda>r. row_id r = k) rows) keys"

text \<open>\<open>order_updates\<close> is \<open>None\<close> when the argument is no list.\<close>

definition reorder_items ::
    "timestamp \<Rightarrow> uuid \<Rightarrow> order_update list option \<Rightarrow> state
       \<Rightarrow> (error + bullet_item_dict list) \<times> state" where
  "reorder_items now sid order_updates st =
     (case order_updates of
        None \<Rightarrow>
          (Inl (ValidationError ''ITEM002'' [(''order'', [''Invalid order updates format''])]), st)
      | Some updates \<Rightarrow>
          let existing_items = list_records (bullet_items st) (\<lambda>r. spec_id r = sid);
              existing_map = existing_map_of existing_items
          in (case validate_updates existing_map updates of
                Some e \<Rightarrow> (Inl e, st)
              | None \<Rightarrow>
                  (case update_items now existing_map updates (bullet_items st) of
                     (Inl e, rows) \<Rightarrow> (Inl e, st\<lparr>bullet_items := rows\<rparr>)
                   | (Inr keys, rows) \<Rightarrow>
                       (Inr (map bullet_item_schema_dump (updated_items keys rows)),
                        st\<lparr>bullet_items := rows\<rparr>))))"

text \<open>
  A call of the service that creates or deletes, with the values the environment gives it,
  and the state a sequence of such calls leaves (a call that raises leaves the state its
  method left).
\<close>

datatype bullet_item_call =
    Create uuid timestamp bullet_item_data
  | Delete timestamp uuid

fun run_call :: "state \<Rightarrow> bullet_item_call \<Rightarrow> state" where
  "run_call st (Create new_id now data) = snd (create_bullet_item new_id now data st)"
| "run_call st (Delete now item_id) = snd (delete_bullet_item now item_id st)"

definition run_calls :: "bullet_item_call list \<Rightarrow> state \<Rightarrow> state" where
  "run_calls calls st = foldl run_call st calls"

text \<open>The number of active bullet items of a specification.\<close>

definition active_count :: "uuid \<Rightarrow> state \<Rightarrow> nat" where
  "active_count sid st = length (list_records (bullet_items st) (\<lambda>r. spec_id r = sid))"

section \<open>ProjectService.get_project (services/project_service.py)\<close>

text \<open>
  A cached dictionary is returned after the comparison of its \<open>user_id\<close> with the
  requester; a cached dictionary without that key raises \<open>KeyError\<close>. \<open>None\<close> from the
  cache leads to the store. No exception of the cache is caught.
\<close>

definition get_project :: "uuid \<Rightarrow> uuid \<Rightarrow> state \<Rightarrow> (error + payload) \<times> state" where
  "get_project pid uid st =
     (case cache_get_project (redis st) pid of
        Inl e \<Rightarrow> (Inl e, st)
      | Inr cached_project \<Rightarrow>
          (case cached_project of
             ProjectDict d \<Rightarrow>
               if pd_user_id d \<noteq> uid then (Inl (AuthorizationError ''PRJ002''), st)
               else (Inr cached_project, st)
           | SpecificationDict d \<Rightarrow> (Inl (KeyError ''user_id''), st)
           | SpecificationsDict ds \<Rightarrow> (Inl (KeyError ''user_id''), st)
           | PyNone \<Rightarrow>
               (case get_record (projects st) pid of
                  None \<Rightarrow> (Inl (ResourceNotFoundError ''PRJ001''), st)
                | Some p \<Rightarrow>
                    if \<not> validate_ownership p uid then (Inl (AuthorizationError ''PRJ002''), st)
                    else
                      (let project_dict = ProjectDict (project_schema_dump p) in
                       case cache_set_project (redis st) pid project_dict of
                         Inl e \<Rightarrow> (Inl e, st)
                       | Inr c \<Rightarrow> (Inr project_dict, st\<lparr>redis := c\<rparr>)))))"

section \<open>SpecificationService (services/specification_service.py)\<close>

text \<open>
  Both methods raise \<open>ResourceNotFoundError\<close> as it is and every other exception as
  \<open>DatabaseError\<close>.
\<close>

definition get_specification :: "uuid \<Rightarrow> state \<Rightarrow> (error + payload) \<times> state" where
  "get_specification sid st =
     (case cache_get_specification (redis st) sid of
        Inl e \<Rightarrow> (Inl DatabaseError, st)
      | Inr cached_spec \<Rightarrow>
          if cached_spec \<noteq> PyNone then (Inr cached_spec, st)
          else
            (case get_record (specifications st) sid of
               None \<Rightarrow> (Inl (ResourceNotFoundError ''SPEC001''), st)
             | Some s \<Rightarrow>
                 (let spec_dict = SpecificationDict (specification_schema_dump (bullet_items st) s) in
                  case cache_set_specification (redis st) sid spec_dict of
                    Inl e \<Rightarrow> (Inl DatabaseError, st)
                  | Inr c \<Rightarrow> (Inr spec_dict, st\<lparr>redis := c\<rparr>))))"

definition delete_specification :: "timestamp \<Rightarrow> uuid \<Rightarrow> state \<Rightarrow> (error + unit) \<times> state" where
  "delete_specification now sid st =
     (case get_record (specifications st) sid of
        None \<Rightarrow> (Inl (ResourceNotFoundError ''SPEC001''), st)
      | Some s \<Rightarrow>
          (let st' = st\<lparr>specifications := delete_record now s (specifications st)\<rparr> in
           case clear_cache (redis st') of
             Inl e \<Rightarrow> (Inl DatabaseError, st')
           | Inr c \<Rightarrow> (Inr (), st'\<lparr>redis := c\<rparr>)))"

section \<open>What the first loop of \<open>reorder_items\<close> checks of an entry\<close>




section \<open>Lemmas on the record store\<close>

lemma BulletItem_Some:
  "BulletItem new_id now sid c n = Some r \<Longrightarrow>
     row_id r = new_id \<and> spec_id r = sid \<and> \<not> is_deleted r \<and> order r = n \<and> content r = strip c
     \<and> created_at r = now \<and> updated_at r = now"
  by (auto simp: BulletItem_def split: if_splits)

lemma get_record_Some:
  "get_record rows i = Some r \<Longrightarrow> r \<in> set rows \<and> row_id r = i \<and> \<not> is_deleted r"
  unfolding get_record_def by (auto simp: find_Some_iff)

lemma delete_record_nth:
  "k < length rows \<Longrightarrow>
     delete_record now record rows ! k =
       (if row_id (rows ! k) = row_id record then soft_delete now (rows ! k) else rows ! k)"
  by (simp add: delete_record_def)

lemma active_filter_delete_record:
  "length (filter (\<lambda>r. \<not> is_deleted r \<and> P r) (delete_record now record rows))
     \<le> length (filter (\<lambda>r. \<not> is_deleted r \<and> P r) rows)"
  by (induction rows) (auto simp: delete_record_def soft_delete_def)

lemma get_record_delete_record:
  "get_record (delete_record now record rows) (row_id record) = None"
  by (auto simp: get_record_def delete_record_def soft_delete_def find_None_iff)


section \<open>The capacity of a specification\<close>

lemma active_count_create:
  assumes "active_count S st \<le> 10"
  shows "active_count S (snd (create_bullet_item new_id now data st)) \<le> 10"
  using assms
  by (auto simp: create_bullet_item_def active_count_def list_records_def create_record_def Let_def
      dest!: BulletItem_Some split: sum.splits prod.splits option.splits if_splits)

lemma active_count_delete:
  "active_count S (snd (delete_bullet_item now item_id st)) \<le> active_count S st"
  using active_filter_delete_record[of "\<lambda>r. spec_id r = S" now]
  by (auto simp: delete_bullet_item_def active_count_def list_records_def split: option.splits)

lemma capacity_run_call:
  "\<forall>S. active_count S st \<le> 10 \<Longrightarrow> \<forall>S. active_count S (run_call st c) \<le> 10"
proof (cases c)
  case (Create new_id now data)
  assume "\<forall>S. active_count S st \<le> 10"
  then show ?thesis using Create by (simp add: active_count_create)
next
  case (Delete now item_id)
  assume h: "\<forall>S. active_count S st \<le> 10"
  show ?thesis
  proof
    fix S
    have "active_count S (run_call st c) \<le> active_count S st"
      using Delete by (simp add: active_count_delete)
    with h show "active_count S (run_call st c) \<le> 10" using le_trans by blast
  qed
qed

text \<open>
  Claim C1. For every specification \<open>S\<close>, the number of active bullet items under \<open>S\<close>
  never exceeds 10 after any sequence of \<open>create_bullet_item\<close> and \<open>delete_bullet_item\<close>
  calls, starting from a state that satisfies the bound.
\<close>

theorem capacity_invariant:
  "\<forall>S. active_count S st \<le> 10 \<Longrightarrow> \<forall>S. active_count S (run_calls calls st) \<le> 10"
  unfolding run_calls_def
  by (induction calls arbitrary: st) (simp_all add: capacity_run_call)

text \<open>
  Eleven creations under one specification, a deletion and two more creations, from the
  empty store: the bound holds at the end, where the specification has 10 active items.
\<close>

theorem capacity_invariant_witness:
  "let data = \<lparr>in_content = Some ''  draft the API  '', in_order = Some 3, in_spec_id = Some ''s1''\<rparr>;
       st = \<lparr>projects = [], specifications = [], bullet_items = [],
             redis = \<lparr>reachable = True, entries = []\<rparr>\<rparr>;
       calls = map (\<lambda>i. Create i 5 data)
                 [''i01'', ''i02'', ''i03'', ''i04'', ''i05'', ''i06'', ''i07'', ''i08'', ''i09'',
                  ''i10'', ''i11'']
               @ [Delete 6 ''i02'', Create ''i12'' 7 data, Create ''i13'' 8 data]
   in (\<forall>S. active_count S st \<le> 10)
    \<and> (\<forall>S. active_count S (run_calls calls st) \<le> 10)
    \<and> active_count ''s1'' (run_calls calls st) = 10"
proof -
  let ?data = "\<lparr>in_content = Some ''  draft the API  '', in_order = Some 3, in_spec_id = Some ''s1''\<rparr>"
  let ?st = "\<lparr>projects = [], specifications = [], bullet_items = [],
             redis = \<lparr>reachable = True, entries = []\<rparr>\<rparr>"
  let ?calls = "map (\<lambda>i. Create i 5 ?data)
                 [''i01'', ''i02'', ''i03'', ''i04'', ''i05'', ''i06'', ''i07'', ''i08'', ''i09'',
                  ''i10'', ''i11'']
               @ [Delete 6 ''i02'', Create ''i12'' 7 ?data, Create ''i13'' 8 ?data]"
  have h: "\<forall>S. active_count S ?st \<le> 10"
    by (simp add: active_count_def list_records_def)
  have c: "active_count ''s1'' (run_calls ?calls ?st) = 10"
    by (simp add: create_bullet_item_def create_schema_load_def validate_bullet_item_def
        strip_def isspace_def MAX_CONTENT_LENGTH_def MAX_BULLET_ITEMS_def list_records_def
        create_record_def BulletItem_def validate_order_def bullet_item_schema_dump_def
        delete_bullet_item_def get_record_def delete_record_def soft_delete_def
        active_count_def run_calls_def)
  show ?thesis
    unfolding Let_def using h capacity_invariant[OF h, of ?calls] c by blast
qed

text \<open>
  Claim C2. When the specification already has 10 active bullet items, \<open>create_bullet_item\<close>
  with valid input raises \<open>ValidationError('ITEM001')\<close>, the capacity error, and leaves the
  state as it was: no record is created and no item is modified. The validator
  \<open>validate_bullet_items_count\<close> raises the same code on that count.
\<close>

theorem create_at_capacity:
  assumes "create_schema_load data = Inr (c, n, sid)"
      and "active_count sid st = 10"
  shows "create_bullet_item new_id now data st =
           (Inl (ValidationError ''ITEM001''
                   [(''items'', [''Maximum number of bullet items (10) reached''])]), st)
       \<and> validate_bullet_items_count (int (active_count sid st)) =
           Inl (ValidationError ''ITEM001''
                  [(''count'', [''Cannot exceed maximum of 10 bullet items''])])"
  using assms
  by (simp add: create_bullet_item_def active_count_def validate_bullet_items_count_def
      MAX_BULLET_ITEMS_def)

theorem create_at_capacity_witness:
  "let data = \<lparr>in_content = Some ''one more'', in_order = Some 4, in_spec_id = Some ''s1''\<rparr>;
       st = \<lparr>projects = [], specifications = [],
             bullet_items =
               map (\<lambda>(i, n). \<lparr>row_id = i, created_at = 1, updated_at = 1, is_deleted = False,
                                spec_id = ''s1'', content = ''text'', order = n\<rparr>)
                 [(''i00'', 0), (''i01'', 1), (''i02'', 2), (''i03'', 3), (''i04'', 4),
                  (''i05'', 5), (''i06'', 6), (''i07'', 7), (''i08'', 8), (''i09'', 9)],
             redis = \<lparr>reachable = True, entries = []\<rparr>\<rparr>
   in create_schema_load data = Inr (''one more'', 4, ''s1'')
    \<and> active_count ''s1'' st = 10
    \<and> create_bullet_item ''i10'' 2 data st =
          (Inl (ValidationError ''ITEM001''
                  [(''items'', [''Maximum number of bullet items (10) reached''])]), st)"
proof -
  let ?data = "\<lparr>in_content = Some ''one more'', in_order = Some 4, in_spec_id = Some ''s1''\<rparr>"
  let ?st = "\<lparr>projects = [], specifications = [],
             bullet_items =
               map (\<lambda>(i, n). \<lparr>row_id = i, created_at = 1, updated_at = 1, is_deleted = False,
                                spec_id = ''s1'', content = ''text'', order = n\<rparr>)
                 [(''i00'', 0), (''i01'', 1), (''i02'', 2), (''i03'', 3), (''i04'', 4),
                  (''i05'', 5), (''i06'', 6), (''i07'', 7), (''i08'', 8), (''i09'', 9)],
             redis = \<lparr>reachable = True, entries = []\<rparr>\<rparr>"
  have h1: "create_schema_load ?data = Inr (''one more'', 4, ''s1'')"
    by (simp add: create_schema_load_def validate_bullet_item_def strip_def isspace_def
        MAX_CONTENT_LENGTH_def MAX_BULLET_ITEMS_def)
  have h2: "active_count ''s1'' ?st = 10"
    by (simp add: active_count_def list_records_def)
  show ?thesis
    unfolding Let_def using h1 h2 create_at_capacity[OF h1 h2, of "''i10''" 2] by blast
qed

section \<open>Soft deletion of a bullet item\<close>

text \<open>
  Claim C6. For an active bullet item, \<open>delete_bullet_item\<close> sets \<open>is_deleted\<close> and
  restamps \<open>updated_at\<close> on its row and leaves \<open>id\<close>, \<open>spec_id\<close>, \<open>content\<close>, \<open>order\<close>
  and \<open>created_at\<close> as they were; every other row is unchanged. Afterwards the item is not
  in \<open>list_specification_items(spec_id)\<close>, and its row, with its order, is still in the
  table.
\<close>

theorem delete_bullet_item_soft:
  assumes "get_record (bullet_items st) item_id = Some item"
  shows "\<exists>rows'.
           delete_bullet_item now item_id st =
             (Inr ''Bullet item deleted successfully'', st\<lparr>bullet_items := rows'\<rparr>)
         \<and> length rows' = length (bullet_items st)
         \<and> (\<forall>k < length rows'.
               row_id (rows' ! k) = row_id (bullet_items st ! k)
             \<and> spec_id (rows' ! k) = spec_id (bullet_items st ! k)
             \<and> content (rows' ! k) = content (bullet_items st ! k)
             \<and> order (rows' ! k) = order (bullet_items st ! k)
             \<and> created_at (rows' ! k) = created_at (bullet_items st ! k)
             \<and> (if row_id (bullet_items st ! k) = item_id
                  then is_deleted (rows' ! k) \<and> updated_at (rows' ! k) = now
                  else rows' ! k = bullet_items st ! k))
         \<and> (\<exists>r \<in> set rows'. row_id r = item_id \<and> is_deleted r \<and> updated_at r = now
               \<and> spec_id r = spec_id item \<and> content r = content item \<and> order r = order item)
         \<and> item_id \<notin> bi_id ` set (list_specification_items (spec_id item)
                                      (st\<lparr>bullet_items := rows'\<rparr>))"
proof -
  let ?rows = "bullet_items st"
  let ?rows' = "delete_record now item ?rows"
  from assms have item: "item \<in> set ?rows" "row_id item = item_id" "\<not> is_deleted item"
    using get_record_Some by blast+
  have call: "delete_bullet_item now item_id st =
      (Inr ''Bullet item deleted successfully'', st\<lparr>bullet_items := ?rows'\<rparr>)"
    using assms by (simp add: delete_bullet_item_def)
  have len: "length ?rows' = length ?rows"
    by (simp add: delete_record_def)
  have frame: "\<forall>k < length ?rows'.
               row_id (?rows' ! k) = row_id (?rows ! k)
             \<and> spec_id (?rows' ! k) = spec_id (?rows ! k)
             \<and> content (?rows' ! k) = content (?rows ! k)
             \<and> order (?rows' ! k) = order (?rows ! k)
             \<and> created_at (?rows' ! k) = created_at (?rows ! k)
             \<and> (if row_id (?rows ! k) = item_id
                  then is_deleted (?rows' ! k) \<and> updated_at (?rows' ! k) = now
                  else ?rows' ! k = ?rows ! k)"
    using item(2) len by (simp add: delete_record_nth soft_delete_def)
  have "soft_delete now item \<in> set ?rows'"
    using item(1) by (force simp: delete_record_def)
  then have stored: "\<exists>r \<in> set ?rows'. row_id r = item_id \<and> is_deleted r \<and> updated_at r = now
               \<and> spec_id r = spec_id item \<and> content r = content item \<and> order r = order item"
    using item(2) by (intro bexI[of _ "soft_delete now item"]) (simp_all add: soft_delete_def)
  have "\<forall>r \<in> set ?rows'. row_id r = item_id \<longrightarrow> is_deleted r"
    using item(2) by (auto simp: delete_record_def soft_delete_def)
  then have gone: "item_id \<notin> bi_id ` set (list_specification_items (spec_id item)
                                      (st\<lparr>bullet_items := ?rows'\<rparr>))"
    by (auto simp: list_specification_items_def list_records_def bullet_item_schema_dump_def)
  from call len frame stored gone show ?thesis by blast
qed

theorem delete_bullet_item_soft_witness:
  "let st = \<lparr>projects = [], specifications = [],
             bullet_items =
               [\<lparr>row_id = ''a'', created_at = 1, updated_at = 1, is_deleted = False,
                 spec_id = ''s1'', content = ''first'', order = 0\<rparr>,
                \<lparr>row_id = ''b'', created_at = 2, updated_at = 2, is_deleted = False,
                 spec_id = ''s1'', content = ''second'', order = 1\<rparr>],
             redis = \<lparr>reachable = True, entries = []\<rparr>\<rparr>
   in get_record (bullet_items st) ''a'' =
        Some \<lparr>row_id = ''a'', created_at = 1, updated_at = 1, is_deleted = False,
              spec_id = ''s1'', content = ''first'', order = 0\<rparr>
    \<and> ''a'' \<notin> bi_id ` set (list_specification_items ''s1'' (snd (delete_bullet_item 9 ''a'' st)))
    \<and> bullet_items (snd (delete_bullet_item 9 ''a'' st)) =
         [\<lparr>row_id = ''a'', created_at = 1, updated_at = 9, is_deleted = True,
           spec_id = ''s1'', content = ''first'', order = 0\<rparr>,
          \<lparr>row_id = ''b'', created_at = 2, updated_at = 2, is_deleted = False,
           spec_id = ''s1'', content = ''second'', order = 1\<rparr>]"
proof -
  let ?a = "\<lparr>row_id = ''a'', created_at = 1, updated_at = 1, is_deleted = False,
                 spec_id = ''s1'', content = ''first'', order = 0\<rparr>"
  let ?st = "\<lparr>projects = [], specifications = [],
             bullet_items =
               [?a,
                \<lparr>row_id = ''b'', created_at = 2, updated_at = 2, is_deleted = False,
                 spec_id = ''s1'', content = ''second'', order = 1\<rparr>],
             redis = \<lparr>reachable = True, entries = []\<rparr>\<rparr>"
  have h: "get_record (bullet_items ?st) ''a'' = Some ?a"
    by (simp add: get_record_def)
  from delete_bullet_item_soft[OF h, of 9] obtain rows' where
    r: "delete_bullet_item 9 ''a'' ?st =
          (Inr ''Bullet item deleted successfully'', ?st\<lparr>bullet_items := rows'\<rparr>)"
    and gone: "''a'' \<notin> bi_id ` set (list_specification_items (spec_id ?a)
                                      (?st\<lparr>bullet_items := rows'\<rparr>))"
    by blast
  have g: "''a'' \<notin> bi_id ` set (list_specification_items ''s1'' (snd (delete_bullet_item 9 ''a'' ?st)))"
    using gone unfolding r by simp
  have rows: "bullet_items (snd (delete_bullet_item 9 ''a'' ?st)) =
         [\<lparr>row_id = ''a'', created_at = 1, updated_at = 9, is_deleted = True,
           spec_id = ''s1'', content = ''first'', order = 0\<rparr>,
          \<lparr>row_id = ''b'', created_at = 2, updated_at = 2, is_deleted = False,
           spec_id = ''s1'', content = ''second'', order = 1\<rparr>]"
    by (simp add: delete_bullet_item_def get_record_def delete_record_def soft_delete_def)
  show ?thesis
    unfolding Let_def using h g rows by blast
qed

section \<open>Reordering\<close>


















text \<open>
  Claim C5, as the code has it. \<open>reorder_items(S, [])\<close> modifies nothing and returns the
  empty list, the list of the items it updated.
\<close>

theorem reorder_items_empty:
  "reorder_items now sid (Some []) st = (Inr [], st)"
  by (simp add: reorder_items_def updated_items_def)

text \<open>
  With one active item under the specification the call returns \<open>[]\<close>, which is not the
  list of the active items.
\<close>

theorem reorder_items_empty_counterexample:
  "let st = \<lparr>projects = [], specifications = [],
             bullet_items =
               [\<lparr>row_id = ''a'', created_at = 1, updated_at = 1, is_deleted = False,
                 spec_id = ''s1'', content = ''first'', order = 0\<rparr>],
             redis = \<lparr>reachable = True, entries = []\<rparr>\<rparr>
   in list_specification_items ''s1'' st =
        [\<lparr>bi_id = ''a'', bi_spec_id = ''s1'', bi_content = ''first'', bi_order = 0,
          bi_created_at = 1, bi_updated_at = 1\<rparr>]
    \<and> fst (reorder_items 9 ''s1'' (Some []) st) = Inr []
    \<and> fst (reorder_items 9 ''s1'' (Some []) st) \<noteq> Inr (list_specification_items ''s1'' st)"
  by (simp add: reorder_items_def list_records_def existing_map_of_def update_record_def
      updated_items_def bullet_item_schema_dump_def list_specification_items_def
      Let_def)

theorem reorder_items_empty_witness:
  "reorder_items 9 ''s1'' (Some [])
     \<lparr>projects = [], specifications = [],
      bullet_items =
        [\<lparr>row_id = ''a'', created_at = 1, updated_at = 1, is_deleted = False,
          spec_id = ''s1'', content = ''first'', order = 0\<rparr>],
      redis = \<lparr>reachable = True, entries = []\<rparr>\<rparr>
   = (Inr [],
      \<lparr>projects = [], specifications = [],
       bullet_items =
         [\<lparr>row_id = ''a'', created_at = 1, updated_at = 1, is_deleted = False,
           spec_id = ''s1'', content = ''first'', order = 0\<rparr>],
       redis = \<lparr>reachable = True, entries = []\<rparr>\<rparr>)"
  by (rule reorder_items_empty)



section \<open>Deleting a specification\<close>

text \<open>
  Claim C7, as the code has it. \<open>delete_specification\<close> soft-deletes the row of the
  specification only: the table of bullet items is left as it was, so the items of the
  specification that were active stay active and stay in \<open>list_specification_items\<close>.
\<close>

theorem delete_specification_keeps_items:
  "bullet_items (snd (delete_specification now sid st)) = bullet_items st
   \<and> list_specification_items sid (snd (delete_specification now sid st))
       = list_specification_items sid st
   \<and> (\<forall>s. get_record (specifications st) sid = Some s \<longrightarrow>
          get_record (specifications (snd (delete_specification now sid st))) sid = None)"
proof -
  have items: "bullet_items (snd (delete_specification now sid st)) = bullet_items st"
    by (auto simp: delete_specification_def Let_def split: option.splits sum.splits)
  then have listed: "list_specification_items sid (snd (delete_specification now sid st))
       = list_specification_items sid st"
    by (simp add: list_specification_items_def)
  have gone: "get_record (specifications (snd (delete_specification now sid st))) sid = None"
    if s: "get_record (specifications st) sid = Some s" for s
  proof -
    from s have "row_id s = sid" using get_record_Some by blast
    then have "get_record (delete_record now s (specifications st)) sid = None"
      using get_record_delete_record[of now s] by simp
    then show ?thesis
      using s by (auto simp: delete_specification_def Let_def split: sum.splits)
  qed
  from items listed gone show ?thesis by blast
qed

text \<open>
  A specification with one active item: after the call the specification is soft-deleted
  and its item is still active.
\<close>

theorem delete_specification_keeps_items_counterexample:
  "let st = \<lparr>projects = [],
             specifications =
               [\<lparr>row_id = ''s1'', created_at = 1, updated_at = 1, is_deleted = False,
                 project_id = ''p1'', spec_content = ''login page''\<rparr>],
             bullet_items =
               [\<lparr>row_id = ''a'', created_at = 2, updated_at = 2, is_deleted = False,
                 spec_id = ''s1'', content = ''first'', order = 0\<rparr>],
             redis = \<lparr>reachable = True, entries = []\<rparr>\<rparr>
   in fst (delete_specification 9 ''s1'' st) = Inr ()
    \<and> specifications (snd (delete_specification 9 ''s1'' st)) =
         [\<lparr>row_id = ''s1'', created_at = 1, updated_at = 9, is_deleted = True,
           project_id = ''p1'', spec_content = ''login page''\<rparr>]
    \<and> list_records (bullet_items (snd (delete_specification 9 ''s1'' st))) (\<lambda>r. spec_id r = ''s1'') =
         [\<lparr>row_id = ''a'', created_at = 2, updated_at = 2, is_deleted = False,
           spec_id = ''s1'', content = ''first'', order = 0\<rparr>]
    \<and> active_count ''s1'' (snd (delete_specification 9 ''s1'' st)) = 1"
  by (simp add: delete_specification_def get_record_def delete_record_def soft_delete_def
      clear_cache_def redis_clear_def list_records_def active_count_def Let_def)

theorem delete_specification_keeps_items_witness:
  "let st = \<lparr>projects = [],
             specifications =
               [\<lparr>row_id = ''s1'', created_at = 1, updated_at = 1, is_deleted = False,
                 project_id = ''p1'', spec_content = ''login page''\<rparr>],
             bullet_items =
               [\<lparr>row_id = ''a'', created_at = 2, updated_at = 2, is_deleted = False,
                 spec_id = ''s1'', content = ''first'', order = 0\<rparr>],
             redis = \<lparr>reachable = True, entries = []\<rparr>\<rparr>
   in get_record (specifications st) ''s1'' =
        Some \<lparr>row_id = ''s1'', created_at = 1, updated_at = 1, is_deleted = False,
              project_id = ''p1'', spec_content = ''login page''\<rparr>
    \<and> get_record (specifications (snd (delete_specification 9 ''s1'' st))) ''s1'' = None
    \<and> bullet_items (snd (delete_specification 9 ''s1'' st)) = bullet_items st"
proof -
  let ?st = "\<lparr>projects = [],
             specifications =
               [\<lparr>row_id = ''s1'', created_at = 1, updated_at = 1, is_deleted = False,
                 project_id = ''p1'', spec_content = ''login page''\<rparr>],
             bullet_items =
               [\<lparr>row_id = ''a'', created_at = 2, updated_at = 2, is_deleted = False,
                 spec_id = ''s1'', content = ''first'', order = 0\<rparr>],
             redis = \<lparr>reachable = True, entries = []\<rparr>\<rparr>"
  have h: "get_record (specifications ?st) ''s1'' =
        Some \<lparr>row_id = ''s1'', created_at = 1, updated_at = 1, is_deleted = False,
              project_id = ''p1'', spec_content = ''login page''\<rparr>"
    by (simp add: get_record_def)
  show ?thesis
    unfolding Let_def using h delete_specification_keeps_items[of 9 "''s1''" ?st] by blast
qed

section \<open>Reading through the cache\<close>

lemma get_project_returns_own_project:
  "fst (get_project pid uid st) = Inr x \<Longrightarrow> \<exists>d. x = ProjectDict d \<and> pd_user_id d = uid"
  by (auto simp: get_project_def validate_ownership_def project_schema_dump_def Let_def
      split: sum.splits payload.splits option.splits if_splits)



text \<open>
  Claim C9, as the code has it. When the cache backend fails, \<open>get_project\<close> and
  \<open>get_specification\<close> raise \<open>DatabaseError\<close>: the store is not read and the state is
  unchanged.
\<close>

theorem cache_failure_fails_read:
  assumes "\<not> reachable (redis st)"
  shows "get_project pid uid st = (Inl DatabaseError, st)
       \<and> get_specification sid st = (Inl DatabaseError, st)"
  using assms
  by (simp add: get_project_def get_specification_def cache_get_project_def
      cache_get_specification_def redis_get_def)

text \<open>
  The store holds the project of the requester and the cache is unreachable: the request
  fails with \<open>DatabaseError\<close>.
\<close>

theorem cache_failure_fails_read_counterexample:
  "let p = \<lparr>row_id = ''p1'', created_at = 1, updated_at = 1, is_deleted = False,
            title = ''Billing'', user_id = ''u1''\<rparr>;
       st = \<lparr>projects = [p], specifications = [], bullet_items = [],
             redis = \<lparr>reachable = False, entries = []\<rparr>\<rparr>
   in get_record (projects st) ''p1'' = Some p
    \<and> validate_ownership p ''u1''
    \<and> get_project ''p1'' ''u1'' st = (Inl DatabaseError, st)"
  by (simp add: get_project_def cache_get_project_def redis_get_def get_record_def
      validate_ownership_def Let_def)

theorem cache_failure_fails_read_witness:
  "let st = \<lparr>projects = [\<lparr>row_id = ''p1'', created_at = 1, updated_at = 1, is_deleted = False,
                           title = ''Billing'', user_id = ''u1''\<rparr>],
             specifications =
               [\<lparr>row_id = ''s1'', created_at = 1, updated_at = 1, is_deleted = False,
                 project_id = ''p1'', spec_content = ''login page''\<rparr>],
             bullet_items = [],
             redis = \<lparr>reachable = False, entries = []\<rparr>\<rparr>
   in \<not> reachable (redis st)
    \<and> get_project ''p1'' ''u1'' st = (Inl DatabaseError, st)
    \<and> get_specification ''s1'' st = (Inl DatabaseError, st)"
proof -
  let ?st = "\<lparr>projects = [\<lparr>row_id = ''p1'', created_at = 1, updated_at = 1, is_deleted = False,
                           title = ''Billing'', user_id = ''u1''\<rparr>],
             specifications =
               [\<lparr>row_id = ''s1'', created_at = 1, updated_at = 1, is_deleted = False,
                 project_id = ''p1'', spec_content = ''login page''\<rparr>],
             bullet_items = [],
             redis = \<lparr>reachable = False, entries = []\<rparr>\<rparr>"
  have h: "\<not> reachable (redis ?st)" by simp
  show ?thesis
    unfolding Let_def
    using h cache_failure_fails_read[OF h, of "''p1''" "''u1''" "''s1''"] by blast
qed

end
